theory Spec2Isabelle
  imports Complex_Main "HOL-Library.AList"
begin

section \<open>Core abstractions of the serverless LLM platform (core/base.py)\<close>

text \<open>
  The module wraps an external cluster scheduler (Ray). It consists of the placement
  group helpers \<^verbatim>\<open>create_placement_group\<close> and \<^verbatim>\<open>remove_placement_group_safe\<close>, the
  dataclasses \<^verbatim>\<open>PlacementGroupSpec\<close> and \<^verbatim>\<open>ActorOptions\<close>, and the class methods
  \<^verbatim>\<open>BaseActor.options\<close> and \<^verbatim>\<open>BaseActor.as_remote\<close>.

  Python values are dynamically typed: a dataclass field holds whatever the caller
  passed. The values of the model are the shapes the annotations of \<^verbatim>\<open>ActorOptions\<close>
  mention, together with the other atomic types. Floats are carried around and compared
  with zero only, no arithmetic is done on them, so they are modelled by reals (no NaN,
  no infinities). A placement group is an opaque handle, identified by a number. A
  resource mapping is the list of its items in insertion order.
\<close>

subsection \<open>Values and exceptions\<close>

type_synonym PlacementGroup = nat

type_synonym ResourceBundle = "(string \<times> real) list"

datatype pyval =
    PNone
  | PBool bool
  | PInt int
  | PFloat real
  | PStr string
  | PMapping "(string \<times> real) list"
  | PGroup PlacementGroup

text \<open>
  The exceptions are those that derive from Python's \<^verbatim>\<open>Exception\<close>: the module's own
  hierarchy under \<^verbatim>\<open>CoreError\<close>, the built-in ones the interpreter raises in the modelled
  functions, and \<^verbatim>\<open>SchedulerError\<close> for whatever the external scheduler raises.
  Asynchronous signals (\<^verbatim>\<open>KeyboardInterrupt\<close>, \<^verbatim>\<open>SystemExit\<close>) are outside the model.
  \<^verbatim>\<open>PlacementFailure\<close> carries the timeout that its message is formatted from.
  \<^verbatim>\<open>InvalidOptionError\<close> is the name the specification gives to the rejection of an
  unknown option; base.py defines no such class and no function below returns it.
\<close>

datatype error =
    CoreError
  | RayDependencyError
  | PlacementFailure real
  | ActorInitializationError
  | ModelNotLoaded
  | TypeError
  | ValueError
  | NameError
  | SchedulerError string
  | InvalidOptionError

subsection \<open>PlacementGroupSpec\<close>

record PlacementGroupSpec =
  bundles :: "ResourceBundle list"
  strategy :: string
  timeout_s :: real

text \<open>
  The constructor generated by \<^verbatim>\<open>@dataclass(frozen=True)\<close>: \<^verbatim>\<open>bundles\<close> is required,
  \<^verbatim>\<open>strategy\<close> defaults to \<^verbatim>\<open>"PACK"\<close> and \<^verbatim>\<open>timeout_s\<close> to \<^verbatim>\<open>30.0\<close>. The class has no
  \<^verbatim>\<open>__post_init__\<close>: the arguments are stored as they are and the call cannot raise.
\<close>

definition PlacementGroupSpec_init ::
  "ResourceBundle list \<Rightarrow> string option \<Rightarrow> real option \<Rightarrow> error + PlacementGroupSpec" where
  "PlacementGroupSpec_init bs st t =
     Inr \<lparr>bundles = bs,
          strategy = (case st of None \<Rightarrow> ''PACK'' | Some x \<Rightarrow> x),
          timeout_s = (case t of None \<Rightarrow> 30 | Some x \<Rightarrow> x)\<rparr>"

text \<open>
  \<^verbatim>\<open>PlacementGroupSpec.to_kwargs\<close> returns the dict with the two keys \<^verbatim>\<open>bundles\<close> and
  \<^verbatim>\<open>strategy\<close>; it is the pair of their values here.
\<close>

definition PlacementGroupSpec_to_kwargs :: "PlacementGroupSpec \<Rightarrow> ResourceBundle list \<times> string" where
  "PlacementGroupSpec_to_kwargs spec = (bundles spec, strategy spec)"

text \<open>The invariants the data model of the specification states for a placement spec.\<close>

definition spec_invariant :: "PlacementGroupSpec \<Rightarrow> bool" where
  "spec_invariant spec \<longleftrightarrow> bundles spec \<noteq> [] \<and> 0 < timeout_s spec"

subsection \<open>ActorOptions\<close>

record ActorOptions =
  num_cpus :: pyval
  num_gpus :: pyval
  resources :: pyval
  max_concurrency :: pyval
  name :: pyval
  namespace :: pyval
  lifetime :: pyval
  placement_group :: pyval

definition option_fields :: "string list" where
  "option_fields = [''num_cpus'', ''num_gpus'', ''resources'', ''max_concurrency'',
     ''name'', ''namespace'', ''lifetime'', ''placement_group'']"

text \<open>Reading a field by its name, as \<^verbatim>\<open>getattr\<close> does.\<close>

definition getfield :: "ActorOptions \<Rightarrow> string \<Rightarrow> pyval" where
  "getfield opts k =
     (if k = ''num_cpus'' then num_cpus opts
      else if k = ''num_gpus'' then num_gpus opts
      else if k = ''resources'' then resources opts
      else if k = ''max_concurrency'' then max_concurrency opts
      else if k = ''name'' then name opts
      else if k = ''namespace'' then namespace opts
      else if k = ''lifetime'' then lifetime opts
      else placement_group opts)"

text \<open>
  \<^verbatim>\<open>dataclasses.asdict\<close>: the dict of the fields in declaration order. It copies
  mappings and opaque objects; values are compared by their contents here, so a copy is
  the value itself.
\<close>

definition asdict :: "ActorOptions \<Rightarrow> (string \<times> pyval) list" where
  "asdict opts = map (\<lambda>k. (k, getfield opts k)) option_fields"

text \<open>
  \<^verbatim>\<open>d.update(overrides)\<close>: each item of the overrides is assigned in turn; an
  assignment replaces the value of a key that is present and appends a new key.
\<close>

definition dict_update :: "(string \<times> pyval) list \<Rightarrow> (string \<times> pyval) list \<Rightarrow> (string \<times> pyval) list" where
  "dict_update d ov = fold (\<lambda>(k, v). AList.update k v) ov d"

definition kwarg :: "(string \<times> pyval) list \<Rightarrow> string \<Rightarrow> pyval \<Rightarrow> pyval" where
  "kwarg kw k d = (case map_of kw k of None \<Rightarrow> d | Some v \<Rightarrow> v)"

text \<open>
  The generated constructor \<^verbatim>\<open>ActorOptions(**kw)\<close>: a keyword that is not a field
  raises \<^verbatim>\<open>TypeError\<close> (unexpected keyword argument); a field that is not given takes
  its default.
\<close>

definition ActorOptions_init :: "(string \<times> pyval) list \<Rightarrow> error + ActorOptions" where
  "ActorOptions_init kw =
     (if \<exists>k \<in> set (map fst kw). k \<notin> set option_fields then Inl TypeError
      else Inr \<lparr>num_cpus = kwarg kw ''num_cpus'' (PFloat 0),
                num_gpus = kwarg kw ''num_gpus'' (PFloat 0),
                resources = kwarg kw ''resources'' PNone,
                max_concurrency = kwarg kw ''max_concurrency'' PNone,
                name = kwarg kw ''name'' PNone,
                namespace = kwarg kw ''namespace'' PNone,
                lifetime = kwarg kw ''lifetime'' PNone,
                placement_group = kwarg kw ''placement_group'' PNone\<rparr>)"

text \<open>Truth value of a Python object, as \<^verbatim>\<open>if x:\<close> tests it.\<close>

fun truthy :: "pyval \<Rightarrow> bool" where
  "truthy PNone = False"
| "truthy (PBool b) = b"
| "truthy (PInt i) = (i \<noteq> 0)"
| "truthy (PFloat r) = (r \<noteq> 0)"
| "truthy (PStr s) = (s \<noteq> [])"
| "truthy (PMapping m) = (m \<noteq> [])"
| "truthy (PGroup g) = True"

text \<open>
  \<^verbatim>\<open>dict(x)\<close>: a copy of a mapping; a string is iterated character by character and
  its first element is not a pair (\<^verbatim>\<open>ValueError\<close>; the empty string gives the empty
  dict); every other value of the model is not iterable (\<^verbatim>\<open>TypeError\<close>).
\<close>

fun py_dict :: "pyval \<Rightarrow> error + pyval" where
  "py_dict (PMapping m) = Inr (PMapping m)"
| "py_dict (PStr s) = (if s = [] then Inr (PMapping []) else Inl ValueError)"
| "py_dict v = Inl TypeError"

text \<open>
  \<^verbatim>\<open>ActorOptions.to_kwargs\<close>. Each \<^verbatim>\<open>kwargs[k] = v\<close> is an assignment into the dict
  built so far.
\<close>

definition set_unless_None :: "string \<Rightarrow> pyval \<Rightarrow> (string \<times> pyval) list \<Rightarrow> (string \<times> pyval) list" where
  "set_unless_None k v kw = (if v \<noteq> PNone then AList.update k v kw else kw)"

definition ActorOptions_to_kwargs :: "ActorOptions \<Rightarrow> error + (string \<times> pyval) list" where
  "ActorOptions_to_kwargs opts =
     (let kwargs = [(''num_cpus'', num_cpus opts), (''num_gpus'', num_gpus opts)] in
      case (if truthy (resources opts)
            then (case py_dict (resources opts) of
                    Inl e \<Rightarrow> Inl e
                  | Inr d \<Rightarrow> Inr (AList.update ''resources'' d kwargs))
            else Inr kwargs) of
        Inl e \<Rightarrow> Inl e
      | Inr kwargs1 \<Rightarrow>
          Inr (set_unless_None ''placement_group'' (placement_group opts)
              (set_unless_None ''lifetime'' (lifetime opts)
              (set_unless_None ''namespace'' (namespace opts)
              (set_unless_None ''name'' (name opts)
              (set_unless_None ''max_concurrency'' (max_concurrency opts) kwargs1))))))"

subsection \<open>The process state and the external scheduler\<close>

text \<open>
  The scheduler is outside the module. Every call to it is recorded in a trace, and what
  a call answers is a function of the trace so far and of the arguments, so that a
  scheduler may answer the same call differently over time. The trace also records the
  log records the module emits and each entry into \<^verbatim>\<open>create_placement_group\<close>.
\<close>

datatype event =
    Enter_create_placement_group PlacementGroupSpec
  | Call_placement_group "ResourceBundle list" string
  | Call_wait PlacementGroup real
  | Call_remove_placement_group PlacementGroup
  | Call_remote "(string \<times> pyval) list"
  | Log_debug_created PlacementGroup PlacementGroupSpec
  | Log_debug_removed PlacementGroup
  | Log_warning_remove_failed PlacementGroup error

text \<open>
  The module \<^verbatim>\<open>ray\<close>: \<^verbatim>\<open>ray.wait([pg.ready()], timeout=t)\<close> raises or returns the list of
  ready references, of which only emptiness is inspected (\<open>True\<close>: not empty);
  \<^verbatim>\<open>ray.remote(**kwargs)(cls)\<close> raises or returns a remote class, an opaque number.
\<close>

record ray_module =
  ray_wait :: "event list \<Rightarrow> PlacementGroup \<Rightarrow> real \<Rightarrow> error + bool"
  ray_remote :: "event list \<Rightarrow> (string \<times> pyval) list \<Rightarrow> error + nat"

text \<open>
  The two names imported from \<^verbatim>\<open>ray.util.placement_group\<close>. \<^verbatim>\<open>remove_placement_group\<close>
  returns nothing (\<open>None\<close>) or raises (\<open>Some e\<close>).
\<close>

record placement_api =
  api_placement_group :: "event list \<Rightarrow> ResourceBundle list \<Rightarrow> string \<Rightarrow> error + PlacementGroup"
  api_remove_placement_group :: "event list \<Rightarrow> PlacementGroup \<Rightarrow> error option"

text \<open>
  The state of the process: the module global \<^verbatim>\<open>ray\<close> (\<open>None\<close> when the import
  failed, or when it was set to \<^verbatim>\<open>None\<close>), the imported names (unbound when the import
  failed), the trace, and the store of the \<^verbatim>\<open>ActorOptions\<close> instances, which are mutable
  objects referred to by their address.
\<close>

type_synonym addr = nat

record state =
  ray :: "ray_module option"
  placement_names :: "placement_api option"
  trace :: "event list"
  objs :: "ActorOptions list"

definition emit :: "event \<Rightarrow> state \<Rightarrow> state" where
  "emit e s = s\<lparr>trace := trace s @ [e]\<rparr>"

definition call_placement_group :: "ResourceBundle list \<times> string \<Rightarrow> state \<Rightarrow> (error + PlacementGroup) \<times> state" where
  "call_placement_group kw s =
     (case placement_names s of
        None \<Rightarrow> (Inl NameError, s)
      | Some api \<Rightarrow>
          (api_placement_group api (trace s) (fst kw) (snd kw),
           emit (Call_placement_group (fst kw) (snd kw)) s))"

definition call_wait :: "ray_module \<Rightarrow> PlacementGroup \<Rightarrow> real \<Rightarrow> state \<Rightarrow> (error + bool) \<times> state" where
  "call_wait r pg t s = (ray_wait r (trace s) pg t, emit (Call_wait pg t) s)"

definition call_remove_placement_group :: "PlacementGroup \<Rightarrow> state \<Rightarrow> (error + unit) \<times> state" where
  "call_remove_placement_group pg s =
     (case placement_names s of
        None \<Rightarrow> (Inl NameError, s)
      | Some api \<Rightarrow>
          ((case api_remove_placement_group api (trace s) pg of
              None \<Rightarrow> Inr ()
            | Some e \<Rightarrow> Inl e),
           emit (Call_remove_placement_group pg) s))"

definition call_remote :: "ray_module \<Rightarrow> (string \<times> pyval) list \<Rightarrow> state \<Rightarrow> (error + nat) \<times> state" where
  "call_remote r kw s = (ray_remote r (trace s) kw, emit (Call_remote kw) s)"

subsection \<open>Placement group helpers\<close>

definition require_ray :: "state \<Rightarrow> error + ray_module" where
  "require_ray s = (case ray s of None \<Rightarrow> Inl RayDependencyError | Some r \<Rightarrow> Inr r)"

definition create_placement_group :: "PlacementGroupSpec \<Rightarrow> state \<Rightarrow> (error + PlacementGroup) \<times> state" where
  "create_placement_group spec s0 =
     (let s = emit (Enter_create_placement_group spec) s0 in
      case require_ray s of
        Inl e \<Rightarrow> (Inl e, s)
      | Inr r \<Rightarrow>
          (case call_placement_group (PlacementGroupSpec_to_kwargs spec) s of
             (Inl e, s1) \<Rightarrow> (Inl e, s1)
           | (Inr pg, s1) \<Rightarrow>
               (case call_wait r pg (timeout_s spec) s1 of
                  (Inl e, s2) \<Rightarrow> (Inl e, s2)
                | (Inr ready, s2) \<Rightarrow>
                    if \<not> ready then
                      (case call_remove_placement_group pg s2 of
                         (Inl e, s3) \<Rightarrow> (Inl e, s3)
                       | (Inr u, s3) \<Rightarrow> (Inl (PlacementFailure (timeout_s spec)), s3))
                    else (Inr pg, emit (Log_debug_created pg spec) s2))))"

definition remove_placement_group_safe :: "PlacementGroup option \<Rightarrow> state \<Rightarrow> (error + unit) \<times> state" where
  "remove_placement_group_safe pg s =
     (case pg of
        None \<Rightarrow> (Inr (), s)
      | Some p \<Rightarrow>
          (case call_remove_placement_group p s of
             (Inr u, s1) \<Rightarrow> (Inr (), emit (Log_debug_removed p) s1)
           | (Inl e, s1) \<Rightarrow> (Inr (), emit (Log_warning_remove_failed p e) s1)))"

subsection \<open>BaseActor\<close>

text \<open>
  The class attributes of an actor class: \<^verbatim>\<open>default_options\<close> is a reference to the
  \<^verbatim>\<open>ActorOptions\<close> instance created when the class was defined and shared by every call.
\<close>

record actor_class =
  default_options :: addr
  placement_group_spec :: "PlacementGroupSpec option"

definition alloc :: "ActorOptions \<Rightarrow> state \<Rightarrow> addr \<times> state" where
  "alloc opts s = (length (objs s), s\<lparr>objs := objs s @ [opts]\<rparr>)"

definition set_placement_group :: "addr \<Rightarrow> pyval \<Rightarrow> state \<Rightarrow> state" where
  "set_placement_group a v s = s\<lparr>objs := (objs s)[a := (objs s ! a)\<lparr>placement_group := v\<rparr>]\<rparr>"

definition options :: "actor_class \<Rightarrow> (string \<times> pyval) list \<Rightarrow> state \<Rightarrow> (error + addr) \<times> state" where
  "options cls overrides s =
     (let options_dict = dict_update (asdict (objs s ! default_options cls)) overrides in
      case ActorOptions_init options_dict of
        Inl e \<Rightarrow> (Inl e, s)
      | Inr opts \<Rightarrow>
          (case alloc opts s of
             (a, s1) \<Rightarrow>
               if placement_group (objs s1 ! a) = PNone \<and> placement_group_spec cls \<noteq> None then
                 (case create_placement_group (the (placement_group_spec cls)) s1 of
                    (Inl e, s2) \<Rightarrow> (Inl e, s2)
                  | (Inr pg, s2) \<Rightarrow> (Inr a, set_placement_group a (PGroup pg) s2))
               else (Inr a, s1)))"

definition as_remote :: "actor_class \<Rightarrow> (string \<times> pyval) list \<Rightarrow> state \<Rightarrow> (error + nat) \<times> state" where
  "as_remote cls overrides s =
     (case require_ray s of
        Inl e \<Rightarrow> (Inl e, s)
      | Inr r \<Rightarrow>
          (case options cls overrides s of
             (Inl e, s1) \<Rightarrow> (Inl e, s1)
           | (Inr a, s1) \<Rightarrow>
               (case ActorOptions_to_kwargs (objs s1 ! a) of
                  Inl e \<Rightarrow> (Inl e, s1)
                | Inr kw \<Rightarrow> call_remote r kw s1)))"

subsection \<open>Observations on a trace\<close>

text \<open>
  The specs with which \<^verbatim>\<open>create_placement_group\<close> was entered, and the handles whose
  removal was requested from the scheduler, in the order of the calls.
\<close>

fun reserve_calls :: "event list \<Rightarrow> PlacementGroupSpec list" where
  "reserve_calls [] = []"
| "reserve_calls (Enter_create_placement_group spec # es) = spec # reserve_calls es"
| "reserve_calls (e # es) = reserve_calls es"

fun release_calls :: "event list \<Rightarrow> PlacementGroup list" where
  "release_calls [] = []"
| "release_calls (Call_remove_placement_group pg # es) = pg # release_calls es"
| "release_calls (e # es) = release_calls es"

text \<open>
  The value the specification expects of a resolved field: the value the overrides give
  to the key if they name it, the value of the class default otherwise. The keys of a
  keyword dict are distinct, so the first binding of a key is its only one.
\<close>

definition override_or_default :: "(string \<times> pyval) list \<Rightarrow> ActorOptions \<Rightarrow> string \<Rightarrow> pyval" where
  "override_or_default overrides dflt k =
     (case map_of overrides k of Some v \<Rightarrow> v | None \<Rightarrow> getfield dflt k)"

text \<open>
  The condition under which resolution reserves: the class declares a placement spec and
  the merged option set has no placement handle.
\<close>

definition reservation_needed :: "actor_class \<Rightarrow> (string \<times> pyval) list \<Rightarrow> state \<Rightarrow> bool" where
  "reservation_needed cls overrides s \<longleftrightarrow>
     placement_group_spec cls \<noteq> None \<and>
     override_or_default overrides (objs s ! default_options cls) ''placement_group'' = PNone"

subsection \<open>The classes of the unit tests and stub schedulers\<close>

text \<open>
  \<^verbatim>\<open>ExampleActor\<close> and \<^verbatim>\<open>ExampleActorWithPlacement\<close> are the classes of
  tests/unit/test_core_base.py; the spec of the latter is
  \<^verbatim>\<open>PlacementGroupSpec(bundles=({"GPU": 1},))\<close>. \<^verbatim>\<open>PinnedActor\<close> is a class that declares a
  placement spec and whose default options already hold a placement handle. A stub
  scheduler answers every call in the same way: it hands out one handle, reports it
  ready or not, and its removal returns or raises.
\<close>

definition gpu_spec :: PlacementGroupSpec where
  "gpu_spec = \<lparr>bundles = [ [(''GPU'', 1)] ], strategy = ''PACK'', timeout_s = 30\<rparr>"

definition stub_ray :: "bool \<Rightarrow> ray_module" where
  "stub_ray ready = \<lparr>ray_wait = (\<lambda>tr pg t. Inr ready), ray_remote = (\<lambda>tr kw. Inr 0)\<rparr>"

definition stub_api :: "PlacementGroup \<Rightarrow> error option \<Rightarrow> placement_api" where
  "stub_api pg rm =
     \<lparr>api_placement_group = (\<lambda>tr bs st. Inr pg), api_remove_placement_group = (\<lambda>tr g. rm)\<rparr>"

definition ExampleActor_options :: ActorOptions where
  "ExampleActor_options =
     \<lparr>num_cpus = PInt 1, num_gpus = PFloat 0.25, resources = PNone, max_concurrency = PNone,
      name = PNone, namespace = PNone, lifetime = PNone, placement_group = PNone\<rparr>"

definition ExampleActorWithPlacement_options :: ActorOptions where
  "ExampleActorWithPlacement_options =
     \<lparr>num_cpus = PInt 1, num_gpus = PInt 1, resources = PNone, max_concurrency = PNone,
      name = PNone, namespace = PNone, lifetime = PNone, placement_group = PNone\<rparr>"

definition PinnedActor_options :: ActorOptions where
  "PinnedActor_options =
     \<lparr>num_cpus = PFloat 0.5, num_gpus = PFloat 0, resources = PNone, max_concurrency = PNone,
      name = PNone, namespace = PNone, lifetime = PNone, placement_group = PGroup 3\<rparr>"

definition ExampleActor :: actor_class where
  "ExampleActor = \<lparr>default_options = 0, placement_group_spec = None\<rparr>"

definition ExampleActorWithPlacement :: actor_class where
  "ExampleActorWithPlacement = \<lparr>default_options = 1, placement_group_spec = Some gpu_spec\<rparr>"

definition PinnedActor :: actor_class where
  "PinnedActor = \<lparr>default_options = 2, placement_group_spec = Some gpu_spec\<rparr>"

definition test_state :: "ray_module option \<Rightarrow> placement_api option \<Rightarrow> state" where
  "test_state r api =
     \<lparr>ray = r, placement_names = api, trace = [],
      objs = [ExampleActor_options, ExampleActorWithPlacement_options, PinnedActor_options]\<rparr>"

section \<open>Properties\<close>

subsection \<open>Dictionaries\<close>

lemma keys_dict_update: "fst ` set (dict_update d ov) = fst ` set d \<union> fst ` set ov"
proof (induction ov arbitrary: d)
  case Nil
  then show ?case by (simp add: dict_update_def)
next
  case (Cons p ov)
  obtain k v where p: "p = (k, v)" by (cases p)
  have "dict_update d (p # ov) = dict_update (AList.update k v d) ov"
    by (simp add: dict_update_def p)
  then have "fst ` set (dict_update d (p # ov)) = fst ` set (AList.update k v d) \<union> fst ` set ov"
    by (simp add: Cons.IH)
  also have "\<dots> = fst ` set d \<union> fst ` set (p # ov)"
    unfolding AList.dom_update by (auto simp: p)
  finally show ?case .
qed

lemma map_of_dict_update_notin:
  "k \<notin> fst ` set ov \<Longrightarrow> map_of (dict_update d ov) k = map_of d k"
  unfolding dict_update_def
  by (induction ov arbitrary: d) (auto simp: AList.update_conv')

lemma map_of_dict_update_in:
  "distinct (map fst ov) \<Longrightarrow> map_of ov k = Some v \<Longrightarrow> map_of (dict_update d ov) k = Some v"
proof (induction ov arbitrary: d)
  case Nil
  then show ?case by simp
next
  case (Cons p ov)
  obtain k' v' where p: "p = (k', v')" by (cases p)
  show ?case
  proof (cases "k' = k")
    case True
    with Cons.prems p have "k \<notin> fst ` set ov" "v' = v" by auto
    then show ?thesis
      using map_of_dict_update_notin [of k ov "AList.update k v d"] p True
      by (simp add: dict_update_def AList.update_conv')
  next
    case False
    with Cons.prems p have "distinct (map fst ov)" "map_of ov k = Some v" by auto
    then show ?thesis
      using Cons.IH [of "AList.update k' v' d"] p by (simp add: dict_update_def)
  qed
qed

lemma map_of_asdict:
  "map_of (asdict opts) k = (if k \<in> set option_fields then Some (getfield opts k) else None)"
  by (simp add: asdict_def map_of_map_restrict restrict_map_def)

lemma keys_asdict: "fst ` set (asdict opts) = set option_fields"
  by (simp add: asdict_def image_image)

lemma kwarg_merge:
  assumes "distinct (map fst ov)" "k \<in> set option_fields"
  shows "kwarg (dict_update (asdict d) ov) k dflt = override_or_default ov d k"
proof (cases "map_of ov k")
  case None
  then have "k \<notin> fst ` set ov" by (simp add: map_of_eq_None_iff)
  then show ?thesis
    using assms None
    by (simp add: kwarg_def override_or_default_def map_of_dict_update_notin map_of_asdict)
next
  case (Some v)
  then show ?thesis
    using assms by (simp add: kwarg_def override_or_default_def map_of_dict_update_in)
qed

lemma kwarg_merge_notin:
  assumes "k \<notin> fst ` set ov" "k \<in> set option_fields"
  shows "kwarg (dict_update (asdict d) ov) k dflt = getfield d k"
  using assms by (simp add: kwarg_def map_of_dict_update_notin map_of_asdict)

lemma map_of_set_unless_None:
  "map_of (set_unless_None k v kw) k' =
     (if k' = k \<and> v \<noteq> PNone then Some v else map_of kw k')"
  by (simp add: set_unless_None_def AList.update_conv')

lemma keys_set_unless_None:
  "fst ` set (set_unless_None k v kw) \<subseteq> insert k (fst ` set kw)"
  by (auto simp: set_unless_None_def AList.dom_update)

subsection \<open>The constructor of ActorOptions on a merged dict\<close>

lemma ActorOptions_init_unknown:
  assumes "\<exists>k \<in> fst ` set ov. k \<notin> set option_fields"
  shows "ActorOptions_init (dict_update (asdict d) ov) = Inl TypeError"
  using assms by (auto simp: ActorOptions_init_def keys_dict_update)

lemma ActorOptions_init_known:
  assumes "fst ` set ov \<subseteq> set option_fields"
  shows "ActorOptions_init (dict_update (asdict d) ov) =
     Inr \<lparr>num_cpus = kwarg (dict_update (asdict d) ov) ''num_cpus'' (PFloat 0),
          num_gpus = kwarg (dict_update (asdict d) ov) ''num_gpus'' (PFloat 0),
          resources = kwarg (dict_update (asdict d) ov) ''resources'' PNone,
          max_concurrency = kwarg (dict_update (asdict d) ov) ''max_concurrency'' PNone,
          name = kwarg (dict_update (asdict d) ov) ''name'' PNone,
          namespace = kwarg (dict_update (asdict d) ov) ''namespace'' PNone,
          lifetime = kwarg (dict_update (asdict d) ov) ''lifetime'' PNone,
          placement_group = kwarg (dict_update (asdict d) ov) ''placement_group'' PNone\<rparr>"
proof -
  have "\<not> (\<exists>k \<in> set (map fst (dict_update (asdict d) ov)). k \<notin> set option_fields)"
    using assms by (auto simp: keys_dict_update keys_asdict)
  then show ?thesis
    unfolding ActorOptions_init_def by (simp only: if_False)
qed

lemma ActorOptions_init_InrD:
  assumes "ActorOptions_init (dict_update (asdict d) ov) = Inr opts"
  shows "fst ` set ov \<subseteq> set option_fields"
proof (rule ccontr)
  assume "\<not> fst ` set ov \<subseteq> set option_fields"
  then have "\<exists>k \<in> fst ` set ov. k \<notin> set option_fields" by blast
  from ActorOptions_init_unknown [OF this] assms show False by simp
qed

lemma getfield_init:
  assumes "k \<in> set option_fields"
  shows "getfield \<lparr>num_cpus = kwarg kw ''num_cpus'' (PFloat 0),
          num_gpus = kwarg kw ''num_gpus'' (PFloat 0),
          resources = kwarg kw ''resources'' PNone,
          max_concurrency = kwarg kw ''max_concurrency'' PNone,
          name = kwarg kw ''name'' PNone,
          namespace = kwarg kw ''namespace'' PNone,
          lifetime = kwarg kw ''lifetime'' PNone,
          placement_group = kwarg kw ''placement_group'' PNone\<rparr> k
       = kwarg kw k (if k = ''num_cpus'' \<or> k = ''num_gpus'' then PFloat 0 else PNone)"
  using assms by (auto simp: getfield_def option_fields_def)

lemma getfield_merged_notin:
  assumes init: "ActorOptions_init (dict_update (asdict d) ov) = Inr opts"
    and k: "k \<in> set option_fields" and notin: "k \<notin> fst ` set ov"
  shows "getfield opts k = getfield d k"
proof -
  have "fst ` set ov \<subseteq> set option_fields"
    using init by (rule ActorOptions_init_InrD)
  from ActorOptions_init_known [OF this, of d] init
  have "getfield opts k = kwarg (dict_update (asdict d) ov) k
          (if k = ''num_cpus'' \<or> k = ''num_gpus'' then PFloat 0 else PNone)"
    using getfield_init [OF k, of "dict_update (asdict d) ov"] by simp
  then show ?thesis
    using kwarg_merge_notin [OF notin k] by simp
qed

lemma getfield_merged:
  assumes init: "ActorOptions_init (dict_update (asdict d) ov) = Inr opts"
    and k: "k \<in> set option_fields" and dist: "distinct (map fst ov)"
  shows "getfield opts k = override_or_default ov d k"
proof -
  have "fst ` set ov \<subseteq> set option_fields"
    using init by (rule ActorOptions_init_InrD)
  from ActorOptions_init_known [OF this, of d] init
  have "getfield opts k = kwarg (dict_update (asdict d) ov) k
          (if k = ''num_cpus'' \<or> k = ''num_gpus'' then PFloat 0 else PNone)"
    using getfield_init [OF k, of "dict_update (asdict d) ov"] by simp
  then show ?thesis
    using kwarg_merge [OF dist k] by simp
qed

lemma getfield_placement_group: "getfield opts ''placement_group'' = placement_group opts"
  by (simp add: getfield_def)

lemma getfield_update_placement_group:
  "k \<noteq> ''placement_group'' \<Longrightarrow> k \<in> set option_fields \<Longrightarrow>
   getfield (opts\<lparr>placement_group := v\<rparr>) k = getfield opts k"
  by (auto simp: getfield_def option_fields_def)

lemma placement_group_field: "''placement_group'' \<in> set option_fields"
  by (simp add: option_fields_def)

subsection \<open>Traces and the frame of a reservation\<close>

lemmas call_defs = call_placement_group_def call_wait_def call_remove_placement_group_def
  call_remote_def require_ray_def emit_def PlacementGroupSpec_to_kwargs_def

lemmas fixture_defs = gpu_spec_def stub_ray_def stub_api_def ExampleActor_options_def
  ExampleActorWithPlacement_options_def PinnedActor_options_def ExampleActor_def
  ExampleActorWithPlacement_def PinnedActor_def test_state_def

lemma reserve_calls_append: "reserve_calls (xs @ ys) = reserve_calls xs @ reserve_calls ys"
  by (induction xs rule: reserve_calls.induct) simp_all

lemma release_calls_append: "release_calls (xs @ ys) = release_calls xs @ release_calls ys"
  by (induction xs rule: release_calls.induct) simp_all

lemma create_placement_group_frame:
  "objs (snd (create_placement_group spec s)) = objs s"
  "ray (snd (create_placement_group spec s)) = ray s"
  "placement_names (snd (create_placement_group spec s)) = placement_names s"
  by (simp_all add: create_placement_group_def call_defs Let_def
        split: sum.splits option.splits prod.splits)

lemma create_placement_group_reserve_calls:
  "reserve_calls (trace (snd (create_placement_group spec s))) = reserve_calls (trace s) @ [spec]"
  by (simp add: create_placement_group_def call_defs Let_def reserve_calls_append
        split: sum.splits option.splits prod.splits)

text \<open>A reservation neither reads nor writes the store of option objects.\<close>

lemma create_placement_group_objs:
  "create_placement_group spec (s\<lparr>objs := os\<rparr>) =
     (fst (create_placement_group spec s), (snd (create_placement_group spec s))\<lparr>objs := os\<rparr>)"
  by (simp add: create_placement_group_def call_defs Let_def
        split: sum.splits option.splits prod.splits)

text \<open>
  The timeout path when the removal returns: the failure is \<^verbatim>\<open>PlacementFailure\<close> with the
  timeout of the spec, after one removal request.
\<close>

lemma create_placement_group_timeout_released:
  assumes "ray s = Some r" and "placement_names s = Some api"
    and "api_placement_group api (trace s @ [Enter_create_placement_group spec])
           (bundles spec) (strategy spec) = Inr pg"
    and "ray_wait r (trace s @ [Enter_create_placement_group spec,
           Call_placement_group (bundles spec) (strategy spec)]) pg (timeout_s spec) = Inr False"
    and "api_remove_placement_group api (trace s @ [Enter_create_placement_group spec,
           Call_placement_group (bundles spec) (strategy spec),
           Call_wait pg (timeout_s spec)]) pg = None"
  shows "create_placement_group spec s =
     (Inl (PlacementFailure (timeout_s spec)),
      s\<lparr>trace := trace s @ [Enter_create_placement_group spec,
           Call_placement_group (bundles spec) (strategy spec),
           Call_wait pg (timeout_s spec),
           Call_remove_placement_group pg]\<rparr>)"
  using assms by (simp add: create_placement_group_def call_defs Let_def)

subsection \<open>What a call of options does\<close>

lemma options_run:
  assumes init: "ActorOptions_init (dict_update (asdict (objs s ! default_options cls)) overrides) = Inr opts"
  shows "options cls overrides s =
    (if placement_group opts = PNone \<and> placement_group_spec cls \<noteq> None then
       (case fst (create_placement_group (the (placement_group_spec cls)) s) of
          Inl e \<Rightarrow>
            (Inl e, (snd (create_placement_group (the (placement_group_spec cls)) s))
                      \<lparr>objs := objs s @ [opts]\<rparr>)
        | Inr pg \<Rightarrow>
            (Inr (length (objs s)),
             (snd (create_placement_group (the (placement_group_spec cls)) s))
                \<lparr>objs := objs s @ [opts\<lparr>placement_group := PGroup pg\<rparr>]\<rparr>))
     else (Inr (length (objs s)), s\<lparr>objs := objs s @ [opts]\<rparr>))"
proof (cases "placement_group opts = PNone \<and> placement_group_spec cls \<noteq> None")
  case False
  then show ?thesis
    using init by (auto simp: options_def Let_def alloc_def)
next
  case True
  let ?spec = "the (placement_group_spec cls)"
  have frame: "objs (snd (create_placement_group ?spec s)) = objs s"
    by (rule create_placement_group_frame)
  show ?thesis
    using init True frame
    by (simp add: options_def Let_def alloc_def create_placement_group_objs
          set_placement_group_def split: sum.splits)
qed

lemma reservation_needed_merged:
  assumes init: "ActorOptions_init (dict_update (asdict (objs s ! default_options cls)) overrides) = Inr opts"
    and dist: "distinct (map fst overrides)"
  shows "reservation_needed cls overrides s \<longleftrightarrow>
           placement_group opts = PNone \<and> placement_group_spec cls \<noteq> None"
  using getfield_merged [OF init placement_group_field dist]
  by (auto simp: reservation_needed_def getfield_placement_group)


section \<open>The claims of the specification\<close>

subsection \<open>C1: unknown override keys\<close>

text \<open>
  C1, as amended. For every actor class and every override map with at least one key that
  is not a field of \<^verbatim>\<open>ActorOptions\<close>, \<^verbatim>\<open>BaseActor.options\<close> fails with the built-in
  \<^verbatim>\<open>TypeError\<close> that the constructor raises for an unexpected keyword, and it leaves
  the whole state as it was: no object is created, \<^verbatim>\<open>create_placement_group\<close> is not
  entered and the scheduler is not called.
\<close>

theorem options_unknown_key_TypeError:
  assumes "\<exists>k \<in> fst ` set overrides. k \<notin> set option_fields"
  shows "options cls overrides s = (Inl TypeError, s)"
  using ActorOptions_init_unknown [OF assms]
  by (simp add: options_def Let_def)

theorem options_unknown_key_TypeError_witness:
  "''num_cpu'' \<notin> set option_fields
   \<and> options ExampleActor [(''num_cpu'', PInt 2)] (test_state None None)
       = (Inl TypeError, test_state None None)"
  using options_unknown_key_TypeError
    [of "[(''num_cpu'', PInt 2)]" ExampleActor "test_state None None"]
  by (simp add: option_fields_def)

text \<open>
  The claim as it is stated names the error \<^verbatim>\<open>InvalidOptionError\<close>. With the misspelt
  key \<^verbatim>\<open>num_cpu\<close> the call fails, and the error is not that one.
\<close>

theorem options_unknown_key_not_InvalidOptionError:
  "fst (options ExampleActor [(''num_cpu'', PInt 2)] (test_state None None)) = Inl TypeError
   \<and> fst (options ExampleActor [(''num_cpu'', PInt 2)] (test_state None None))
       \<noteq> Inl InvalidOptionError"
  by (simp add: options_def Let_def ActorOptions_init_unknown option_fields_def)

subsection \<open>C2 and C3: the timeout path of a reservation\<close>

text \<open>
  C2. The claim is that a reservation that is not ready in time fails with
  \<^verbatim>\<open>PlacementFailure\<close> after exactly one release attempt. The code calls
  \<^verbatim>\<open>remove_placement_group\<close> unguarded before it raises. With the spec of the unit test,
  a scheduler that never reports the group ready and whose removal raises, one removal
  is requested, and the call fails with the error of the removal, not with
  \<^verbatim>\<open>PlacementFailure\<close>.
\<close>

theorem create_placement_group_timeout_release_raises:
  "create_placement_group gpu_spec
     (test_state (Some (stub_ray False)) (Some (stub_api 7 (Some (SchedulerError ''unavailable'')))))
   = (Inl (SchedulerError ''unavailable''),
      (test_state (Some (stub_ray False)) (Some (stub_api 7 (Some (SchedulerError ''unavailable'')))))
        \<lparr>trace := [Enter_create_placement_group gpu_spec,
                   Call_placement_group [ [(''GPU'', 1)] ] ''PACK'',
                   Call_wait 7 30,
                   Call_remove_placement_group 7]\<rparr>)"
  by (simp add: create_placement_group_def call_defs Let_def fixture_defs)

text \<open>
  C3. The claim is that a failure of the cleanup release on the timeout path is logged
  and not raised, so that the caller still observes \<^verbatim>\<open>PlacementFailure\<close>. In the code
  the error of the removal reaches the caller, \<^verbatim>\<open>PlacementFailure\<close> is never raised and
  no warning is logged: after the call the trace ends with the removal request.
\<close>

theorem create_placement_group_cleanup_failure_propagates:
  "fst (create_placement_group \<lparr>bundles = [ [(''CPU'', 2)] ], strategy = ''SPREAD'', timeout_s = 5\<rparr>
     (test_state (Some (stub_ray False)) (Some (stub_api 4 (Some (SchedulerError ''group not found''))))))
   = Inl (SchedulerError ''group not found'')
   \<and> fst (create_placement_group \<lparr>bundles = [ [(''CPU'', 2)] ], strategy = ''SPREAD'', timeout_s = 5\<rparr>
     (test_state (Some (stub_ray False)) (Some (stub_api 4 (Some (SchedulerError ''group not found''))))))
   \<noteq> Inl (PlacementFailure 5)
   \<and> last (trace (snd (create_placement_group
        \<lparr>bundles = [ [(''CPU'', 2)] ], strategy = ''SPREAD'', timeout_s = 5\<rparr>
        (test_state (Some (stub_ray False)) (Some (stub_api 4 (Some (SchedulerError ''group not found'')))))))) 
     = Call_remove_placement_group 4
   \<and> release_calls (trace (snd (create_placement_group
        \<lparr>bundles = [ [(''CPU'', 2)] ], strategy = ''SPREAD'', timeout_s = 5\<rparr>
        (test_state (Some (stub_ray False)) (Some (stub_api 4 (Some (SchedulerError ''group not found''))))))))
     = [4]"
  by (simp add: create_placement_group_def call_defs Let_def fixture_defs)

subsection \<open>C4: merging the overrides into the defaults\<close>

text \<open>
  C4, as amended. For every actor class and every override map with known keys only,
  \<^verbatim>\<open>BaseActor.options\<close> returns a new option object whenever no reservation is needed
  (the class declares no placement spec, or the merged placement handle is not
  \<^verbatim>\<open>None\<close>). Whenever it returns, every field other than \<^verbatim>\<open>placement_group\<close> has the
  value the overrides give it if they name it, and the value of the class default
  otherwise; \<^verbatim>\<open>placement_group\<close> follows the same rule unless a reservation was needed,
  in which case it holds the reserved handle (C5).
\<close>

theorem options_merges_overrides:
  assumes known: "fst ` set overrides \<subseteq> set option_fields"
    and dist: "distinct (map fst overrides)"
  shows "case options cls overrides s of (r, s') \<Rightarrow>
     (\<not> reservation_needed cls overrides s \<longrightarrow> r = Inr (length (objs s)))
   \<and> (\<forall>a. r = Inr a \<longrightarrow> a < length (objs s') \<and>
        (\<forall>k \<in> set option_fields.
           (k = ''placement_group'' \<longrightarrow> \<not> reservation_needed cls overrides s) \<longrightarrow>
           getfield (objs s' ! a) k =
             override_or_default overrides (objs s ! default_options cls) k))"
proof -
  let ?d = "objs s ! default_options cls"
  let ?spec = "the (placement_group_spec cls)"
  obtain opts where init: "ActorOptions_init (dict_update (asdict ?d) overrides) = Inr opts"
    using ActorOptions_init_known [OF known] by blast
  have merged: "getfield opts k = override_or_default overrides ?d k"
    if "k \<in> set option_fields" for k
    using getfield_merged [OF init that dist] .
  note need = reservation_needed_merged [OF init dist]
  show ?thesis
  proof (cases "reservation_needed cls overrides s")
    case False
    then have "\<not> (placement_group opts = PNone \<and> placement_group_spec cls \<noteq> None)"
      using need by simp
    then have "options cls overrides s = (Inr (length (objs s)), s\<lparr>objs := objs s @ [opts]\<rparr>)"
      unfolding options_run [OF init] by (rule if_not_P)
    then show ?thesis
      using merged by simp
  next
    case True
    then have "placement_group opts = PNone \<and> placement_group_spec cls \<noteq> None"
      using need by simp
    then have run: "options cls overrides s =
       (case fst (create_placement_group ?spec s) of
          Inl e \<Rightarrow> (Inl e, (snd (create_placement_group ?spec s))\<lparr>objs := objs s @ [opts]\<rparr>)
        | Inr pg \<Rightarrow>
            (Inr (length (objs s)),
             (snd (create_placement_group ?spec s))
                \<lparr>objs := objs s @ [opts\<lparr>placement_group := PGroup pg\<rparr>]\<rparr>))"
      unfolding options_run [OF init] by (rule if_P)
    show ?thesis
      unfolding run using True merged
      by (simp add: getfield_update_placement_group split: sum.splits)
  qed
qed

text \<open>The first unit test: \<^verbatim>\<open>ExampleActor.options(num_cpus=2)\<close>.\<close>

theorem options_merges_overrides_witness:
  "fst ` set [(''num_cpus'', PInt 2)] \<subseteq> set option_fields
   \<and> distinct (map fst [(''num_cpus'', PInt 2)])
   \<and> fst (options ExampleActor [(''num_cpus'', PInt 2)] (test_state None None)) = Inr 3
   \<and> getfield (objs (snd (options ExampleActor [(''num_cpus'', PInt 2)] (test_state None None))) ! 3)
        ''num_cpus'' = PInt 2
   \<and> getfield (objs (snd (options ExampleActor [(''num_cpus'', PInt 2)] (test_state None None))) ! 3)
        ''num_gpus'' = PFloat 0.25
   \<and> getfield (objs (snd (options ExampleActor [(''num_cpus'', PInt 2)] (test_state None None))) ! 3)
        ''resources'' = PNone"
proof -
  have known: "fst ` set [(''num_cpus'', PInt 2)] \<subseteq> set option_fields"
    by (simp add: option_fields_def)
  have dist: "distinct (map fst [(''num_cpus'', PInt 2)])"
    by simp
  show ?thesis
    using known dist
      options_merges_overrides [OF known dist, of ExampleActor "test_state None None"]
    by (simp add: reservation_needed_def override_or_default_def getfield_def fixture_defs
          option_fields_def split: prod.splits)
qed

text \<open>
  The claim as it is stated fails for the field \<^verbatim>\<open>placement_group\<close>: in the second
  unit test the overrides are empty and the default holds no handle, yet the result
  holds the handle that the scheduler returned.
\<close>

theorem options_absent_placement_group_not_default:
  "map_of ([] :: (string \<times> pyval) list) ''placement_group'' = None
   \<and> getfield (objs (test_state (Some (stub_ray True)) (Some (stub_api 7 None)))
        ! default_options ExampleActorWithPlacement) ''placement_group'' = PNone
   \<and> fst (options ExampleActorWithPlacement []
        (test_state (Some (stub_ray True)) (Some (stub_api 7 None)))) = Inr 3
   \<and> getfield (objs (snd (options ExampleActorWithPlacement []
        (test_state (Some (stub_ray True)) (Some (stub_api 7 None))))) ! 3) ''placement_group''
       = PGroup 7"
  by (simp add: options_def Let_def dict_update_def asdict_def option_fields_def getfield_def
        ActorOptions_init_def kwarg_def alloc_def set_placement_group_def
        create_placement_group_def call_defs fixture_defs)

subsection \<open>C5: when resolution reserves\<close>

text \<open>
  C5, as amended. For every actor class and every override map with known keys only: if
  the class declares a placement spec and the merged option set (the class default
  overridden by the map) has no placement handle, \<^verbatim>\<open>BaseActor.options\<close> enters
  \<^verbatim>\<open>create_placement_group\<close> exactly once, with that spec, and does to the scheduler what
  that one call does; if the reservation returns a handle, the result holds it, and if
  it fails, resolution fails with the same error. If the merged option set has a handle,
  be it from the overrides or from the class default, or if no spec is declared, the
  trace is unchanged: \<^verbatim>\<open>create_placement_group\<close> is never entered.
\<close>

theorem options_reserves_once:
  assumes known: "fst ` set overrides \<subseteq> set option_fields"
    and dist: "distinct (map fst overrides)"
  shows "case options cls overrides s of (r, s') \<Rightarrow>
    (if reservation_needed cls overrides s then
       reserve_calls (trace s') = reserve_calls (trace s) @ [the (placement_group_spec cls)]
       \<and> trace s' = trace (snd (create_placement_group (the (placement_group_spec cls)) s))
       \<and> (case fst (create_placement_group (the (placement_group_spec cls)) s) of
            Inl e \<Rightarrow> r = Inl e
          | Inr pg \<Rightarrow> r = Inr (length (objs s))
               \<and> placement_group (objs s' ! length (objs s)) = PGroup pg)
     else trace s' = trace s)"
proof -
  let ?d = "objs s ! default_options cls"
  obtain opts where init: "ActorOptions_init (dict_update (asdict ?d) overrides) = Inr opts"
    using ActorOptions_init_known [OF known] by blast
  note need = reservation_needed_merged [OF init dist]
  show ?thesis
    using options_run [OF init] need
      create_placement_group_reserve_calls [of "the (placement_group_spec cls)" s]
    by (auto split: sum.splits)
qed

text \<open>
  The second unit test with a scheduler that reports the group ready, and the first with
  no scheduler at all.
\<close>

theorem options_reserves_once_witness:
  "fst ` set ([] :: (string \<times> pyval) list) \<subseteq> set option_fields
   \<and> distinct (map fst ([] :: (string \<times> pyval) list))
   \<and> reservation_needed ExampleActorWithPlacement []
        (test_state (Some (stub_ray True)) (Some (stub_api 7 None)))
   \<and> reserve_calls (trace (snd (options ExampleActorWithPlacement []
        (test_state (Some (stub_ray True)) (Some (stub_api 7 None)))))) = [gpu_spec]
   \<and> fst (options ExampleActorWithPlacement []
        (test_state (Some (stub_ray True)) (Some (stub_api 7 None)))) = Inr 3
   \<and> placement_group (objs (snd (options ExampleActorWithPlacement []
        (test_state (Some (stub_ray True)) (Some (stub_api 7 None))))) ! 3) = PGroup 7
   \<and> \<not> reservation_needed ExampleActor [] (test_state None None)
   \<and> trace (snd (options ExampleActor [] (test_state None None))) = []"
proof -
  have known: "fst ` set ([] :: (string \<times> pyval) list) \<subseteq> set option_fields"
    by simp
  have dist: "distinct (map fst ([] :: (string \<times> pyval) list))"
    by simp
  have need: "reservation_needed ExampleActorWithPlacement []
        (test_state (Some (stub_ray True)) (Some (stub_api 7 None)))"
    by (simp add: reservation_needed_def override_or_default_def getfield_def fixture_defs)
  have run: "create_placement_group gpu_spec (test_state (Some (stub_ray True)) (Some (stub_api 7 None)))
      = (Inr 7, (test_state (Some (stub_ray True)) (Some (stub_api 7 None)))
           \<lparr>trace := [Enter_create_placement_group gpu_spec,
                      Call_placement_group [ [(''GPU'', 1)] ] ''PACK'',
                      Call_wait 7 30,
                      Log_debug_created 7 gpu_spec]\<rparr>)"
    by (simp add: create_placement_group_def call_defs Let_def fixture_defs)
  have spec: "the (placement_group_spec ExampleActorWithPlacement) = gpu_spec"
    by (simp add: ExampleActorWithPlacement_def)
  have no_need: "\<not> reservation_needed ExampleActor [] (test_state None None)"
    by (simp add: reservation_needed_def ExampleActor_def)
  have len: "length (objs (test_state (Some (stub_ray True)) (Some (stub_api 7 None)))) = 3"
    "trace (test_state r api) = []" for r api
    by (simp_all add: test_state_def)
  show ?thesis
    using known dist need no_need
      options_reserves_once [OF known dist, of ExampleActorWithPlacement
        "test_state (Some (stub_ray True)) (Some (stub_api 7 None))"]
      options_reserves_once [OF known dist, of ExampleActor "test_state None None"]
    by (simp add: spec run len split: prod.splits)
qed

text \<open>
  The claim as it is stated fails in two ways. \<^verbatim>\<open>PinnedActor\<close> declares a spec and the
  overrides supply no handle, but its default options hold one: nothing is reserved. And
  an override map with an unknown key supplies no handle either: the constructor fails
  before any reservation.
\<close>

theorem options_no_reserve_despite_spec:
  "placement_group_spec PinnedActor = Some gpu_spec
   \<and> map_of ([] :: (string \<times> pyval) list) ''placement_group'' = None
   \<and> fst (options PinnedActor [] (test_state (Some (stub_ray True)) (Some (stub_api 7 None))))
       = Inr 3
   \<and> reserve_calls (trace (snd (options PinnedActor []
        (test_state (Some (stub_ray True)) (Some (stub_api 7 None)))))) = []
   \<and> placement_group_spec ExampleActorWithPlacement = Some gpu_spec
   \<and> map_of [(''num_cpu'', PInt 2)] ''placement_group'' = None
   \<and> reserve_calls (trace (snd (options ExampleActorWithPlacement [(''num_cpu'', PInt 2)]
        (test_state (Some (stub_ray True)) (Some (stub_api 7 None)))))) = []"
  by (simp add: options_def Let_def dict_update_def asdict_def option_fields_def getfield_def
        ActorOptions_init_def kwarg_def alloc_def fixture_defs)

subsection \<open>C6: the safe removal\<close>

text \<open>
  C6. \<^verbatim>\<open>remove_placement_group_safe\<close> never raises, whatever its argument and whatever
  the scheduler does. On \<^verbatim>\<open>None\<close> it returns with the state as it was, so without any
  call to the scheduler. On a handle whose removal raises, the request is the only call
  made, and the error is recorded in a warning record of the log and nowhere else.
\<close>

theorem remove_placement_group_safe_never_raises:
  "fst (remove_placement_group_safe pg s) = Inr ()
   \<and> (pg = None \<longrightarrow> snd (remove_placement_group_safe pg s) = s)
   \<and> (\<forall>p api e. pg = Some p \<and> placement_names s = Some api
          \<and> api_remove_placement_group api (trace s) p = Some e \<longrightarrow>
        snd (remove_placement_group_safe pg s) =
          s\<lparr>trace := trace s @ [Call_remove_placement_group p, Log_warning_remove_failed p e]\<rparr>)"
  by (auto simp: remove_placement_group_safe_def call_defs
        split: option.splits sum.splits prod.splits)

theorem remove_placement_group_safe_never_raises_witness:
  "fst (remove_placement_group_safe (Some 7)
         (test_state None (Some (stub_api 7 (Some (SchedulerError ''gone'')))))) = Inr ()
   \<and> trace (snd (remove_placement_group_safe (Some 7)
         (test_state None (Some (stub_api 7 (Some (SchedulerError ''gone'')))))))
       = [Call_remove_placement_group 7, Log_warning_remove_failed 7 (SchedulerError ''gone'')]
   \<and> snd (remove_placement_group_safe None (test_state None (Some (stub_api 7 None))))
       = test_state None (Some (stub_api 7 None))"
  using remove_placement_group_safe_never_raises
      [of "Some 7" "test_state None (Some (stub_api 7 (Some (SchedulerError ''gone''))))"]
    remove_placement_group_safe_never_raises
      [of None "test_state None (Some (stub_api 7 None))"]
  by (simp add: test_state_def stub_api_def)

subsection \<open>C7: the dependency check of as_remote\<close>

text \<open>
  C7. When the module global \<^verbatim>\<open>ray\<close> is \<^verbatim>\<open>None\<close>, \<^verbatim>\<open>BaseActor.as_remote\<close> fails with
  \<^verbatim>\<open>RayDependencyError\<close> (the dependency error of the module) for every class and every
  override map, and the state is as it was: no option object is created,
  \<^verbatim>\<open>create_placement_group\<close> is not entered and the scheduler is not called.
\<close>

theorem as_remote_requires_ray:
  assumes "ray s = None"
  shows "as_remote cls overrides s = (Inl RayDependencyError, s)"
  using assms by (simp add: as_remote_def require_ray_def)

text \<open>The third unit test, on a class that declares a placement spec.\<close>

theorem as_remote_requires_ray_witness:
  "ray (test_state None (Some (stub_api 7 None))) = None
   \<and> as_remote ExampleActorWithPlacement [] (test_state None (Some (stub_api 7 None)))
      = (Inl RayDependencyError, test_state None (Some (stub_api 7 None)))
   \<and> reserve_calls (trace (snd (as_remote ExampleActorWithPlacement []
        (test_state None (Some (stub_api 7 None)))))) = []"
  using as_remote_requires_ray
    [of "test_state None (Some (stub_api 7 None))" ExampleActorWithPlacement "[]"]
  by (simp add: test_state_def)

subsection \<open>C8: the invariants of a placement spec\<close>

text \<open>
  C8, as amended. The constructor of \<^verbatim>\<open>PlacementGroupSpec\<close> validates nothing: it never
  fails and the spec holds the bundles, the strategy and the timeout as they were given
  (\<^verbatim>\<open>PACK\<close> and 30 seconds when they are omitted). So a constructed spec satisfies the
  invariants of the data model exactly when the arguments do: when the bundles given are
  not empty and the timeout given, if any, is positive.
\<close>

theorem PlacementGroupSpec_init_unvalidated:
  "\<exists>spec. PlacementGroupSpec_init bs st t = Inr spec
     \<and> bundles spec = bs
     \<and> strategy spec = (case st of None \<Rightarrow> ''PACK'' | Some x \<Rightarrow> x)
     \<and> timeout_s spec = (case t of None \<Rightarrow> 30 | Some x \<Rightarrow> x)
     \<and> (spec_invariant spec \<longleftrightarrow> bs \<noteq> [] \<and> (case t of None \<Rightarrow> True | Some x \<Rightarrow> 0 < x))"
  by (simp add: PlacementGroupSpec_init_def spec_invariant_def split: option.splits)

text \<open>
  The claim as it is stated fails: a spec with no bundle and a negative timeout is
  constructed.
\<close>

theorem PlacementGroupSpec_invariant_counterexample:
  "PlacementGroupSpec_init [] None (Some (- 1))
     = Inr \<lparr>bundles = [], strategy = ''PACK'', timeout_s = - 1\<rparr>
   \<and> \<not> spec_invariant \<lparr>bundles = [], strategy = ''PACK'', timeout_s = - 1\<rparr>"
  by (simp add: PlacementGroupSpec_init_def spec_invariant_def)

subsection \<open>C9: the shared default is not mutated\<close>

text \<open>
  C9. For every actor class whose \<^verbatim>\<open>default_options\<close> refers to an object of the store
  and every override map, after \<^verbatim>\<open>BaseActor.options\<close> has returned or raised, the default
  object, like every object that existed before, is unchanged. The object returned is a
  new one, at an address that was not in use, hence distinct from the default, and each
  of its fields that the overrides do not name, \<^verbatim>\<open>placement_group\<close> apart, has the value
  of the default.
\<close>

theorem options_preserves_default_options:
  assumes valid: "default_options cls < length (objs s)"
  shows "case options cls overrides s of (r, s') \<Rightarrow>
     objs s' ! default_options cls = objs s ! default_options cls
   \<and> take (length (objs s)) (objs s') = objs s
   \<and> (\<forall>a. r = Inr a \<longrightarrow>
        a \<noteq> default_options cls \<and> a = length (objs s) \<and> a < length (objs s')
        \<and> (\<forall>k \<in> set option_fields. k \<notin> fst ` set overrides \<longrightarrow> k \<noteq> ''placement_group'' \<longrightarrow>
             getfield (objs s' ! a) k = getfield (objs s ! default_options cls) k))"
proof (cases "ActorOptions_init (dict_update (asdict (objs s ! default_options cls)) overrides)")
  case (Inl e)
  then show ?thesis by (simp add: options_def Let_def)
next
  case (Inr opts)
  have copy: "getfield opts k = getfield (objs s ! default_options cls) k"
    if "k \<in> set option_fields" "k \<notin> fst ` set overrides" for k
    using getfield_merged_notin [OF Inr that] .
  show ?thesis
    using options_run [OF Inr] valid copy
    by (auto simp: nth_append getfield_update_placement_group split: sum.splits)
qed

theorem options_preserves_default_options_witness:
  "default_options ExampleActorWithPlacement
     < length (objs (test_state (Some (stub_ray True)) (Some (stub_api 7 None))))
   \<and> objs (snd (options ExampleActorWithPlacement [(''name'', PStr ''a'')]
        (test_state (Some (stub_ray True)) (Some (stub_api 7 None))))) ! 1
       = ExampleActorWithPlacement_options
   \<and> fst (options ExampleActorWithPlacement [(''name'', PStr ''a'')]
        (test_state (Some (stub_ray True)) (Some (stub_api 7 None)))) = Inr 3
   \<and> getfield (objs (snd (options ExampleActorWithPlacement [(''name'', PStr ''a'')]
        (test_state (Some (stub_ray True)) (Some (stub_api 7 None))))) ! 3) ''num_gpus''
       = PInt 1"
proof -
  have valid: "default_options ExampleActorWithPlacement
     < length (objs (test_state (Some (stub_ray True)) (Some (stub_api 7 None))))"
    by (simp add: fixture_defs)
  have run: "fst (options ExampleActorWithPlacement [(''name'', PStr ''a'')]
        (test_state (Some (stub_ray True)) (Some (stub_api 7 None)))) = Inr 3"
    by (simp add: options_def Let_def dict_update_def asdict_def option_fields_def getfield_def
        ActorOptions_init_def kwarg_def alloc_def set_placement_group_def
        create_placement_group_def call_defs fixture_defs)
  show ?thesis
    using valid run
      options_preserves_default_options [OF valid, of "[(''name'', PStr ''a'')]"]
    by (simp add: option_fields_def getfield_def fixture_defs split: prod.splits)
qed

subsection \<open>C10: the keyword arguments for the backend\<close>

text \<open>
  C10. For every \<^verbatim>\<open>ActorOptions\<close> value whose \<^verbatim>\<open>resources\<close> field is \<^verbatim>\<open>None\<close> or a
  mapping, as its annotation says, \<^verbatim>\<open>to_kwargs\<close> returns a dict that always has the keys
  \<^verbatim>\<open>num_cpus\<close> and \<^verbatim>\<open>num_gpus\<close>, whatever their values; that has each of
  \<^verbatim>\<open>max_concurrency\<close>, \<^verbatim>\<open>name\<close>, \<^verbatim>\<open>namespace\<close>, \<^verbatim>\<open>lifetime\<close> and \<^verbatim>\<open>placement_group\<close>
  exactly when the field is not \<^verbatim>\<open>None\<close>; that has \<^verbatim>\<open>resources\<close> exactly when the
  mapping is neither \<^verbatim>\<open>None\<close> nor empty; and that has no other key.
\<close>

theorem ActorOptions_to_kwargs_keys:
  assumes "resources opts = PNone \<or> (\<exists>m. resources opts = PMapping m)"
  shows "\<exists>kw. ActorOptions_to_kwargs opts = Inr kw
     \<and> map_of kw ''num_cpus'' = Some (num_cpus opts)
     \<and> map_of kw ''num_gpus'' = Some (num_gpus opts)
     \<and> map_of kw ''resources'' =
         (if resources opts = PNone \<or> resources opts = PMapping [] then None
          else Some (resources opts))
     \<and> map_of kw ''max_concurrency'' =
         (if max_concurrency opts = PNone then None else Some (max_concurrency opts))
     \<and> map_of kw ''name'' = (if name opts = PNone then None else Some (name opts))
     \<and> map_of kw ''namespace'' = (if namespace opts = PNone then None else Some (namespace opts))
     \<and> map_of kw ''lifetime'' = (if lifetime opts = PNone then None else Some (lifetime opts))
     \<and> map_of kw ''placement_group'' =
         (if placement_group opts = PNone then None else Some (placement_group opts))
     \<and> fst ` set kw \<subseteq> set option_fields"
proof -
  let ?k0 = "[(''num_cpus'', num_cpus opts), (''num_gpus'', num_gpus opts)]"
  let ?k1 = "if truthy (resources opts) then AList.update ''resources'' (resources opts) ?k0 else ?k0"
  let ?kw = "set_unless_None ''placement_group'' (placement_group opts)
              (set_unless_None ''lifetime'' (lifetime opts)
              (set_unless_None ''namespace'' (namespace opts)
              (set_unless_None ''name'' (name opts)
              (set_unless_None ''max_concurrency'' (max_concurrency opts) ?k1))))"
  have run: "ActorOptions_to_kwargs opts = Inr ?kw"
    using assms by (auto simp: ActorOptions_to_kwargs_def Let_def)
  have res: "map_of ?kw ''resources'' =
      (if resources opts = PNone \<or> resources opts = PMapping [] then None else Some (resources opts))"
    using assms by (auto simp: map_of_set_unless_None AList.update_conv')
  have keys: "fst ` set ?kw \<subseteq> set option_fields"
  proof -
    have "fst ` set ?k1 \<subseteq> set option_fields"
      by (simp add: option_fields_def AList.dom_update)
    then show ?thesis
      by (intro order_trans [OF keys_set_unless_None] insert_subsetI)
         (simp_all add: option_fields_def)
  qed
  show ?thesis
    unfolding run
    apply (intro exI [of _ ?kw] conjI refl res keys)
    apply (simp_all add: map_of_set_unless_None AList.update_conv')
    done
qed

text \<open>
  Options with zero CPUs and GPUs, an empty resource mapping and a name: the dict has
  the two quantities and the name, and no \<^verbatim>\<open>resources\<close>.
\<close>

theorem ActorOptions_to_kwargs_keys_witness:
  "(resources \<lparr>num_cpus = PFloat 0, num_gpus = PFloat 0, resources = PMapping [],
        max_concurrency = PNone, name = PStr ''a'', namespace = PNone, lifetime = PNone,
        placement_group = PNone\<rparr> = PMapping [])
   \<and> ActorOptions_to_kwargs \<lparr>num_cpus = PFloat 0, num_gpus = PFloat 0, resources = PMapping [],
        max_concurrency = PNone, name = PStr ''a'', namespace = PNone, lifetime = PNone,
        placement_group = PNone\<rparr>
      = Inr [(''num_cpus'', PFloat 0), (''num_gpus'', PFloat 0), (''name'', PStr ''a'')]"
  using ActorOptions_to_kwargs_keys [of "\<lparr>num_cpus = PFloat 0, num_gpus = PFloat 0,
        resources = PMapping [], max_concurrency = PNone, name = PStr ''a'', namespace = PNone,
        lifetime = PNone, placement_group = PNone\<rparr>"]
  by (simp add: ActorOptions_to_kwargs_def set_unless_None_def)

end
